theory Spec2Isabelle
  imports Main
begin

section \<open>Data model\<close>

text \<open>
  Identifiers are the strings the code handles (\<open>uuid\<close> columns read back as strings);
  a timestamp is the millisecond count of a JavaScript \<open>Date\<close>.
\<close>

type_synonym uuid = string
type_synonym timestamp = int

text \<open>
  A row of \<open>auth.refresh_tokens\<close> (schema \<open>refreshTokens\<close>). The column \<open>id\<close> is
  written \<open>id_token\<close>; the nullable columns are options.
\<close>

record RefreshToken =
  id_token :: uuid
  userId :: uuid
  tokenHash :: string
  expiresAt :: timestamp
  revokedAt :: "timestamp option"
  replacedByToken :: "uuid option"
  createdAt :: timestamp
  userAgent :: "string option"
  ipAddress :: "string option"

text \<open>
  The fields of a user and of a profile that the authentication service reads
  (\<open>user.id\<close>, \<open>user.email\<close>, \<open>user.role\<close>; a profile is only passed through).
\<close>

record User =
  id_user :: uuid
  email :: string
  role_user :: "string option"

record Profile =
  id_profile :: uuid

record TokenPayload =
  sub :: uuid
  role :: string

record AuthResult =
  user :: User
  profile :: Profile
  access_token :: string
  refresh_token :: string

subsection \<open>Failures\<close>

text \<open>
  The entries of \<open>ERROR_MESSAGES\<close> and \<open>ERROR_CODES\<close> that the service names. Their
  string values live in \<open>config/errors\<close>; here they stay symbolic.
\<close>

datatype error_message =
    MSG_AUTH_REFRESH_TOKEN_NOT_FOUND
  | MSG_AUTH_REFRESH_TOKEN_REVOKED
  | MSG_AUTH_REFRESH_TOKEN_EXPIRED
  | MSG_AUTH_PROFILE_NOT_FOUND
  | MSG_AUTH_INVALID_CREDENTIALS
  | MSG_USER_NOT_FOUND

datatype error_code =
    AUTH_REFRESH_TOKEN_NOT_FOUND
  | AUTH_REFRESH_TOKEN_REVOKED
  | AUTH_REFRESH_TOKEN_EXPIRED
  | AUTH_INVALID_CREDENTIALS
  | USER_NOT_FOUND

text \<open>
  What a call can throw: an \<open>AppError\<close> (message, HTTP status, code), the plain
  \<open>Error\<close> of \<open>createRefreshToken\<close>, or the error the database driver raises when an
  insert violates the primary key or the unique index on \<open>token_hash\<close>.
\<close>

datatype db_constraint = refresh_tokens_pkey | idx_refresh_tokens_token_hash

datatype failure =
    AppError error_message nat error_code
  | Error string
  | DbError db_constraint

subsection \<open>The table and the environment\<close>

text \<open>
  The write statements the code sends to the database, recorded in the order in which
  they are executed.
\<close>

datatype stmt =
    INSERT RefreshToken
  | UPDATE_revoke uuid "uuid option" timestamp
  | UPDATE_revoke_all uuid timestamp

text \<open>
  The state: the rows of \<open>auth.refresh_tokens\<close> in insertion order, and the write
  statements executed so far. A read leaves the state as it is.
\<close>

record db =
  rows :: "RefreshToken list"
  writes :: "stmt list"

text \<open>
  The collaborators whose code is outside the engine: the SHA-256 digest of
  \<open>hashToken\<close>, the JWT signer \<open>generateToken\<close>, the credential check \<open>loginQuery\<close>, the
  lookups \<open>getUserById\<close> and \<open>getProfileById\<close>, the configured refresh lifetime, and
  the time zone of the server as ECMAScript sees it: \<open>LocalTZA t isUTC\<close> is the offset of
  local time from UTC, in milliseconds, at the UTC time \<open>t\<close> (\<open>isUTC\<close> true) or at the
  local time \<open>t\<close> (\<open>isUTC\<close> false).
\<close>

record services =
  sha256_hex :: "string \<Rightarrow> string"
  generateToken :: "TokenPayload \<Rightarrow> string"
  loginQuery :: "string \<Rightarrow> string \<Rightarrow> failure + (User \<times> Profile)"
  getUserById :: "uuid \<Rightarrow> User option"
  getProfileById :: "uuid \<Rightarrow> Profile option"
  REFRESH_TOKEN_EXPIRATION_MINUTES :: int
  LocalTZA :: "timestamp \<Rightarrow> bool \<Rightarrow> int"

text \<open>
  What one request reads from outside: the output of \<open>crypto.randomBytes(32)\<close> in
  base64url, the uuid and the \<open>created_at\<close> the database gives an inserted row, and the
  readings of \<open>new Date()\<close> at the expiry check, in \<open>getRefreshTokenExpirationDate\<close> and in
  the revoking update.
\<close>

record readings =
  randomBytes_base64url :: string
  defaultRandom :: uuid
  defaultNow :: timestamp
  date_check :: timestamp
  date_expiry :: timestamp
  date_revoke :: timestamp

section \<open>Queries on refresh tokens\<close>

definition hashToken :: "services \<Rightarrow> string \<Rightarrow> string" where
  "hashToken c token = sha256_hex c token"

definition generateRefreshToken :: "readings \<Rightarrow> string" where
  "generateRefreshToken io = randomBytes_base64url io"

text \<open>
  The date arithmetic of ECMAScript that \<open>getMinutes\<close> and \<open>setMinutes\<close> are made of.
  Both work on the fields of the local time: \<open>setMinutes\<close> converts the time value to
  local time, replaces the minutes field, and converts the result back to UTC with the
  offset in effect at the new local time. Time values stay within the range of a \<open>Date\<close>
  (8.64e15 milliseconds either side of the epoch), where \<open>TimeClip\<close> changes nothing.
\<close>

definition Day :: "timestamp \<Rightarrow> int" where
  "Day t = t div 86400000"

definition HourFromTime :: "timestamp \<Rightarrow> int" where
  "HourFromTime t = (t div 3600000) mod 24"

definition MinFromTime :: "timestamp \<Rightarrow> int" where
  "MinFromTime t = (t div 60000) mod 60"

definition SecFromTime :: "timestamp \<Rightarrow> int" where
  "SecFromTime t = (t div 1000) mod 60"

definition msFromTime :: "timestamp \<Rightarrow> int" where
  "msFromTime t = t mod 1000"

definition MakeTime :: "int \<Rightarrow> int \<Rightarrow> int \<Rightarrow> int \<Rightarrow> int" where
  "MakeTime h m s ms = h * 3600000 + m * 60000 + s * 1000 + ms"

definition MakeDate :: "int \<Rightarrow> int \<Rightarrow> timestamp" where
  "MakeDate day time = day * 86400000 + time"

definition LocalTime :: "services \<Rightarrow> timestamp \<Rightarrow> timestamp" where
  "LocalTime c t = t + LocalTZA c t True"

definition UTC :: "services \<Rightarrow> timestamp \<Rightarrow> timestamp" where
  "UTC c t = t - LocalTZA c t False"

definition getMinutes :: "services \<Rightarrow> timestamp \<Rightarrow> int" where
  "getMinutes c t = MinFromTime (LocalTime c t)"

definition setMinutes :: "services \<Rightarrow> timestamp \<Rightarrow> int \<Rightarrow> timestamp" where
  "setMinutes c t m =
     (let t' = LocalTime c t
      in UTC c (MakeDate (Day t')
                  (MakeTime (HourFromTime t') m (SecFromTime t') (msFromTime t'))))"

text \<open>
  \<open>const now = new Date(); now.setMinutes(now.getMinutes() + REFRESH_TOKEN_EXPIRATION_MINUTES)\<close>.
\<close>

definition getRefreshTokenExpirationDate :: "services \<Rightarrow> readings \<Rightarrow> timestamp" where
  "getRefreshTokenExpirationDate c io =
     (let now = date_expiry io
      in setMinutes c now (getMinutes c now + REFRESH_TOKEN_EXPIRATION_MINUTES c))"

text \<open>
  \<open>db.insert(refreshTokens).values(..).returning()\<close>: the database fills in \<open>id\<close>,
  \<open>created_at\<close> and the two null columns, refuses a duplicate primary key or a duplicate
  \<open>token_hash\<close>, and returns the inserted rows. The foreign key on \<open>user_id\<close> and the
  length limits of the \<open>varchar\<close> columns are further refusals of the database that
  leave the table as it is; they are not part of this model, so what is proved of a
  successful insert is proved under the condition that it succeeds.
\<close>

definition insert_returning :: "RefreshToken \<Rightarrow> db \<Rightarrow> (failure + RefreshToken list) \<times> db" where
  "insert_returning r d =
     (if id_token r \<in> set (map id_token (rows d)) then (Inl (DbError refresh_tokens_pkey), d)
      else if tokenHash r \<in> set (map tokenHash (rows d))
        then (Inl (DbError idx_refresh_tokens_token_hash), d)
      else (Inr [r], d\<lparr>rows := rows d @ [r], writes := writes d @ [INSERT r]\<rparr>))"

definition createRefreshToken ::
  "services \<Rightarrow> string \<Rightarrow> uuid \<Rightarrow> timestamp \<Rightarrow> string option \<Rightarrow> string option \<Rightarrow>
     readings \<Rightarrow> db \<Rightarrow> (failure + RefreshToken) \<times> db" where
  "createRefreshToken c token uid expires ua ip io d =
     (let tokenHash' = hashToken c token in
      case insert_returning
             \<lparr>id_token = defaultRandom io, userId = uid, tokenHash = tokenHash',
              expiresAt = expires, revokedAt = None, replacedByToken = None,
              createdAt = defaultNow io, userAgent = ua, ipAddress = ip\<rparr> d of
        (Inl e, d') \<Rightarrow> (Inl e, d')
      | (Inr [], d') \<Rightarrow> (Inl (Error ''Failed to create refresh token''), d')
      | (Inr (newToken # _), d') \<Rightarrow> (Inr newToken, d'))"

text \<open>
  \<open>select .. where token_hash = tokenHash and revoked_at is null limit 1\<close>. Under the
  unique index at most one row matches; on a table without it the first match in
  insertion order is taken.
\<close>

definition findRefreshTokenByHash :: "string \<Rightarrow> db \<Rightarrow> RefreshToken option" where
  "findRefreshTokenByHash h d =
     find (\<lambda>r. tokenHash r = h \<and> revokedAt r = None) (rows d)"

text \<open>
  \<open>replacedByTokenId || null\<close>: an argument left out and the empty string both give null.
\<close>

definition or_null :: "string option \<Rightarrow> string option" where
  "or_null x = (case x of None \<Rightarrow> None | Some s \<Rightarrow> if s = [] then None else Some s)"

definition revokeRefreshToken :: "uuid \<Rightarrow> uuid option \<Rightarrow> timestamp \<Rightarrow> db \<Rightarrow> db" where
  "revokeRefreshToken tokenId replacedByTokenId now d =
     d\<lparr>rows := map (\<lambda>r. if id_token r = tokenId
                          then r\<lparr>revokedAt := Some now,
                                 replacedByToken := or_null replacedByTokenId\<rparr>
                          else r) (rows d),
       writes := writes d @ [UPDATE_revoke tokenId (or_null replacedByTokenId) now]\<rparr>"

definition revokeAllUserRefreshTokens :: "uuid \<Rightarrow> timestamp \<Rightarrow> db \<Rightarrow> db" where
  "revokeAllUserRefreshTokens uid now d =
     d\<lparr>rows := map (\<lambda>r. if userId r = uid \<and> revokedAt r = None
                          then r\<lparr>revokedAt := Some now\<rparr> else r) (rows d),
       writes := writes d @ [UPDATE_revoke_all uid now]\<rparr>"

section \<open>The authentication repository and service\<close>

text \<open>
  \<open>AuthRepository\<close>: \<open>findRefreshTokenByToken\<close> hashes and looks up;
  \<open>revokeAllUserTokens\<close> forwards; its \<open>createRefreshToken\<close> and \<open>revokeRefreshToken\<close>
  forward their arguments to the queries of the same name.
\<close>

definition findRefreshTokenByToken :: "services \<Rightarrow> string \<Rightarrow> db \<Rightarrow> RefreshToken option" where
  "findRefreshTokenByToken c token d = findRefreshTokenByHash (hashToken c token) d"

definition revokeAllUserTokens :: "uuid \<Rightarrow> timestamp \<Rightarrow> db \<Rightarrow> db" where
  "revokeAllUserTokens uid now d = revokeAllUserRefreshTokens uid now d"

text \<open>
  \<open>user.role || 'user'\<close>: null, undefined and the empty string give \<open>'user'\<close>.
\<close>

definition role_or_user :: "string option \<Rightarrow> string" where
  "role_or_user r = (case r of None \<Rightarrow> ''user'' | Some s \<Rightarrow> if s = [] then ''user'' else s)"

definition login ::
  "services \<Rightarrow> string \<Rightarrow> string \<Rightarrow> string option \<Rightarrow> string option \<Rightarrow> readings \<Rightarrow> db \<Rightarrow>
     (failure + AuthResult) \<times> db" where
  "login c mail password ua ip io d =
     (case loginQuery c mail password of
        Inl e \<Rightarrow> (Inl e, d)
      | Inr (usr, prof) \<Rightarrow>
          let access = generateToken c \<lparr>sub = id_user usr, role = role_or_user (role_user usr)\<rparr>;
              refresh = generateRefreshToken io;
              expires = getRefreshTokenExpirationDate c io
          in case createRefreshToken c refresh (id_user usr) expires ua ip io d of
               (Inl e, d') \<Rightarrow> (Inl e, d')
             | (Inr _, d') \<Rightarrow>
                 (Inr \<lparr>user = usr, profile = prof, access_token = access,
                       refresh_token = refresh\<rparr>, d'))"

definition refreshTokens ::
  "services \<Rightarrow> string \<Rightarrow> string option \<Rightarrow> string option \<Rightarrow> readings \<Rightarrow> db \<Rightarrow>
     (failure + AuthResult) \<times> db" where
  "refreshTokens c refreshToken ua ip io d =
     (case findRefreshTokenByToken c refreshToken d of
        None \<Rightarrow>
          (Inl (AppError MSG_AUTH_REFRESH_TOKEN_NOT_FOUND 401 AUTH_REFRESH_TOKEN_NOT_FOUND), d)
      | Some storedToken \<Rightarrow>
          if revokedAt storedToken \<noteq> None then
            (Inl (AppError MSG_AUTH_REFRESH_TOKEN_REVOKED 401 AUTH_REFRESH_TOKEN_REVOKED),
             revokeAllUserTokens (userId storedToken) (date_revoke io) d)
          else if date_check io > expiresAt storedToken then
            (Inl (AppError MSG_AUTH_REFRESH_TOKEN_EXPIRED 401 AUTH_REFRESH_TOKEN_EXPIRED), d)
          else
            (case getUserById c (userId storedToken) of
               None \<Rightarrow> (Inl (AppError MSG_USER_NOT_FOUND 404 USER_NOT_FOUND), d)
             | Some usr \<Rightarrow>
                 (case getProfileById c (id_user usr) of
                    None \<Rightarrow>
                      (Inl (AppError MSG_AUTH_PROFILE_NOT_FOUND 404 AUTH_INVALID_CREDENTIALS), d)
                  | Some prof \<Rightarrow>
                      let new_access_token =
                            generateToken c
                              \<lparr>sub = id_user usr, role = role_or_user (role_user usr)\<rparr>;
                          new_refresh_token = generateRefreshToken io;
                          expires = getRefreshTokenExpirationDate c io
                      in case createRefreshToken c new_refresh_token (id_user usr) expires
                                ua ip io d of
                           (Inl e, d') \<Rightarrow> (Inl e, d')
                         | (Inr newTokenRecord, d') \<Rightarrow>
                             (Inr \<lparr>user = usr, profile = prof,
                                   access_token = new_access_token,
                                   refresh_token = new_refresh_token\<rparr>,
                              revokeRefreshToken (id_token storedToken)
                                (Some (id_token newTokenRecord)) (date_revoke io) d'))))"

definition logout :: "services \<Rightarrow> string \<Rightarrow> readings \<Rightarrow> db \<Rightarrow> (failure + unit) \<times> db" where
  "logout c refreshToken io d =
     (case findRefreshTokenByToken c refreshToken d of
        None \<Rightarrow> (Inr (), d)
      | Some storedToken \<Rightarrow>
          if revokedAt storedToken = None
          then (Inr (), revokeRefreshToken (id_token storedToken) None (date_revoke io) d)
          else (Inr (), d))"

text \<open>
  The logout controller: \<open>if (refreshToken) await authService.logout(refreshToken)\<close>, on
  the cookie that may be missing (or empty).
\<close>

definition logout_controller ::
  "services \<Rightarrow> string option \<Rightarrow> readings \<Rightarrow> db \<Rightarrow> (failure + unit) \<times> db" where
  "logout_controller c cookie io d =
     (case cookie of
        None \<Rightarrow> (Inr (), d)
      | Some refreshToken \<Rightarrow> if refreshToken = [] then (Inr (), d) else logout c refreshToken io d)"

section \<open>Scenarios\<close>

text \<open>
  Sequential rotations: each refresh presents the secret the previous call returned;
  the run is \<open>None\<close> as soon as one refresh fails.
\<close>

fun rotations ::
  "services \<Rightarrow> string option \<Rightarrow> string option \<Rightarrow> string \<Rightarrow> readings list \<Rightarrow> db \<Rightarrow>
     (string \<times> db) option" where
  "rotations c ua ip secret [] d = Some (secret, d)"
| "rotations c ua ip secret (io # ios) d =
     (case refreshTokens c secret ua ip io d of
        (Inl e, d') \<Rightarrow> None
      | (Inr res, d') \<Rightarrow> rotations c ua ip (refresh_token res) ios d')"

text \<open>
  A rotation chain: every record but the last is revoked and names its successor in
  \<open>replacedByToken\<close>; the last is active.
\<close>

fun chain :: "RefreshToken list \<Rightarrow> bool" where
  "chain [] = False"
| "chain [r] = (revokedAt r = None)"
| "chain (r # r' # rs) =
     (revokedAt r \<noteq> None \<and> replacedByToken r = Some (id_token r') \<and> chain (r' # rs))"

text \<open>The records of an owner that are active (\<open>revokedAt\<close> null).\<close>

definition activeOf :: "uuid \<Rightarrow> db \<Rightarrow> RefreshToken list" where
  "activeOf uid d = filter (\<lambda>r. userId r = uid \<and> revokedAt r = None) (rows d)"

text \<open>
  The constraints the database keeps on the table: the primary key and the unique index.
\<close>

definition table_ok :: "db \<Rightarrow> bool" where
  "table_ok d = (distinct (map id_token (rows d)) \<and> distinct (map tokenHash (rows d)))"

subsection \<open>Sample data\<close>

text \<open>
  A small concrete environment for evaluating the operations: one user with a profile
  and no role, a stand-in digest (the token with a mark in front, which keeps distinct
  tokens distinct), a stand-in signer that shows the claims it is given, and a server
  whose local time is UTC.
\<close>

definition ann :: User where
  "ann = \<lparr>id_user = ''u1'', email = ''ann@example.com'', role_user = None\<rparr>"

definition ann_profile :: Profile where
  "ann_profile = \<lparr>id_profile = ''u1''\<rparr>"

definition sample_services :: services where
  "sample_services =
     \<lparr>sha256_hex = (\<lambda>t. CHR ''#'' # t),
      generateToken = (\<lambda>p. sub p @ '':'' @ role p),
      loginQuery = (\<lambda>m p. if m = ''ann@example.com'' \<and> p = ''pw'' then Inr (ann, ann_profile)
                           else Inl (AppError MSG_AUTH_INVALID_CREDENTIALS 401
                                       AUTH_INVALID_CREDENTIALS)),
      getUserById = (\<lambda>u. if u = ''u1'' then Some ann else None),
      getProfileById = (\<lambda>u. if u = ''u1'' then Some ann_profile else None),
      REFRESH_TOKEN_EXPIRATION_MINUTES = 10080,
      LocalTZA = (\<lambda>t isUTC. 0)\<rparr>"

text \<open>
  The same environment on a server in New York, where daylight saving time ends on
  2026-11-01 at 06:00 UTC (02:00 local time): the offset is four hours before and five
  hours after.
\<close>

definition new_york_services :: services where
  "new_york_services =
     sample_services\<lparr>LocalTZA :=
       (\<lambda>t isUTC. if isUTC then (if t < 1793512800000 then - 14400000 else - 18000000)
                   else (if t < 1793498400000 then - 14400000 else - 18000000))\<rparr>"

text \<open>A request on 2026-10-28 at 12:00 UTC.\<close>

definition io_october :: readings where
  "io_october = \<lparr>randomBytes_base64url = ''s7'', defaultRandom = ''N'',
                 defaultNow = 1793188800000, date_check = 1793188800000,
                 date_expiry = 1793188800000, date_revoke = 1793188800000\<rparr>"

text \<open>The same environment with the profile lookup finding nothing.\<close>

definition no_profile_services :: services where
  "no_profile_services = sample_services\<lparr>getProfileById := (\<lambda>u. None)\<rparr>"

definition io1 :: readings where
  "io1 = \<lparr>randomBytes_base64url = ''s1'', defaultRandom = ''A'', defaultNow = 1000,
          date_check = 1000, date_expiry = 1000, date_revoke = 1000\<rparr>"

definition io2 :: readings where
  "io2 = \<lparr>randomBytes_base64url = ''s2'', defaultRandom = ''B'', defaultNow = 2000,
          date_check = 2000, date_expiry = 2000, date_revoke = 2000\<rparr>"

definition io3 :: readings where
  "io3 = \<lparr>randomBytes_base64url = ''s3'', defaultRandom = ''C'', defaultNow = 3000,
          date_check = 3000, date_expiry = 3000, date_revoke = 3000\<rparr>"

definition empty_db :: db where
  "empty_db = \<lparr>rows = [], writes = []\<rparr>"

text \<open>Record A as a login at time 1000 leaves it, and as a rotation at 2000 leaves it.\<close>

definition rowA :: RefreshToken where
  "rowA = \<lparr>id_token = ''A'', userId = ''u1'', tokenHash = ''#s1'', expiresAt = 604801000,
           revokedAt = None, replacedByToken = None, createdAt = 1000,
           userAgent = None, ipAddress = None\<rparr>"

definition rowB :: RefreshToken where
  "rowB = \<lparr>id_token = ''B'', userId = ''u1'', tokenHash = ''#s2'', expiresAt = 604802000,
           revokedAt = None, replacedByToken = None, createdAt = 2000,
           userAgent = None, ipAddress = None\<rparr>"

definition db_login :: db where
  "db_login = \<lparr>rows = [rowA], writes = [INSERT rowA]\<rparr>"

definition db_rotated :: db where
  "db_rotated =
     \<lparr>rows = [rowA\<lparr>revokedAt := Some 2000, replacedByToken := Some ''B''\<rparr>, rowB],
      writes = [INSERT rowA, INSERT rowB, UPDATE_revoke ''A'' (Some ''B'') 2000]\<rparr>"

text \<open>What the sample login and the two sample rotations return.\<close>

definition session1 :: AuthResult where
  "session1 = \<lparr>user = ann, profile = ann_profile, access_token = ''u1:user'',
                refresh_token = ''s1''\<rparr>"

definition session2 :: AuthResult where
  "session2 = \<lparr>user = ann, profile = ann_profile, access_token = ''u1:user'',
                refresh_token = ''s2''\<rparr>"

definition session3 :: AuthResult where
  "session3 = \<lparr>user = ann, profile = ann_profile, access_token = ''u1:user'',
                refresh_token = ''s3''\<rparr>"

definition rowC :: RefreshToken where
  "rowC = \<lparr>id_token = ''C'', userId = ''u1'', tokenHash = ''#s3'', expiresAt = 604803000,
           revokedAt = None, replacedByToken = None, createdAt = 3000,
           userAgent = None, ipAddress = None\<rparr>"

definition db_twice :: db where
  "db_twice =
     \<lparr>rows = [rowA\<lparr>revokedAt := Some 2000, replacedByToken := Some ''B''\<rparr>,
              rowB\<lparr>revokedAt := Some 3000, replacedByToken := Some ''C''\<rparr>, rowC],
      writes = [INSERT rowA, INSERT rowB, UPDATE_revoke ''A'' (Some ''B'') 2000,
                INSERT rowC, UPDATE_revoke ''B'' (Some ''C'') 3000]\<rparr>"

text \<open>Two sessions of the same user, both active.\<close>

definition db_two :: db where
  "db_two = \<lparr>rows = [rowA, rowB], writes = [INSERT rowA, INSERT rowB]\<rparr>"

text \<open>A request arriving after both sample records have expired.\<close>

definition io_late :: readings where
  "io_late = \<lparr>randomBytes_base64url = ''s9'', defaultRandom = ''Z'', defaultNow = 700000000,
              date_check = 700000000, date_expiry = 700000000, date_revoke = 700000000\<rparr>"

text \<open>A request in which the generator returns the secret of record A again.\<close>

definition io_clash :: readings where
  "io_clash = \<lparr>randomBytes_base64url = ''s1'', defaultRandom = ''C'', defaultNow = 3000,
               date_check = 3000, date_expiry = 3000, date_revoke = 3000\<rparr>"

section \<open>The expiry of a new token\<close>

text \<open>
  Replacing the minutes field by itself plus \<open>n\<close> moves a local time forward by \<open>n\<close>
  minutes.
\<close>

lemma local_fields_shift:
  "MakeDate (Day t) (MakeTime (HourFromTime t) (MinFromTime t + n) (SecFromTime t) (msFromTime t))
     = t + n * 60000"
proof -
  define a where "a = t div 1000"
  define b where "b = a div 60"
  define c where "c = b div 60"
  have d1: "t div 60000 = b" unfolding b_def a_def
    using zdiv_zmult2_eq[of 60 t 1000] by simp
  have d2: "t div 3600000 = c" unfolding c_def b_def a_def
    using zdiv_zmult2_eq[of 60 t 1000] zdiv_zmult2_eq[of 60 t 60000] by simp
  have d3: "t div 86400000 = c div 24"
    using zdiv_zmult2_eq[of 24 t 3600000] d2 by simp
  have e1: "t = a * 1000 + t mod 1000" unfolding a_def by simp
  have e2: "a = b * 60 + a mod 60" unfolding b_def by simp
  have e3: "b = c * 60 + b mod 60" unfolding c_def by simp
  have e4: "c = (c div 24) * 24 + c mod 24" by simp
  have "(c div 24) * 86400000 + ((c mod 24) * 3600000 + (b mod 60 + n) * 60000 + (a mod 60) * 1000
          + t mod 1000) = t + n * 60000"
    using e1 e2 e3 e4 by algebra
  then show ?thesis
    unfolding MakeDate_def MakeTime_def Day_def HourFromTime_def MinFromTime_def
      SecFromTime_def msFromTime_def d1 d2 d3 a_def[symmetric]
    by simp
qed

text \<open>
  So the expiry is the current local time plus the configured minutes, read back as UTC
  with the offset in effect then. Where the offset does not change in between, that is
  the current time plus the configured minutes; across a change of the offset it differs
  from it by the change.
\<close>

lemma expiration_date_local:
  "getRefreshTokenExpirationDate c io =
     UTC c (LocalTime c (date_expiry io) + REFRESH_TOKEN_EXPIRATION_MINUTES c * 60000)"
  by (simp add: getRefreshTokenExpirationDate_def setMinutes_def getMinutes_def Let_def
      local_fields_shift)

lemma expiration_date_fixed_offset:
  assumes "\<And>t isUTC. LocalTZA c t isUTC = z"
  shows "getRefreshTokenExpirationDate c io =
     date_expiry io + REFRESH_TOKEN_EXPIRATION_MINUTES c * 60000"
  by (simp add: expiration_date_local LocalTime_def UTC_def assms)

text \<open>
  In New York, a token issued on 2026-10-28 at 12:00 UTC expires on 2026-11-04 at 13:00
  UTC: seven days and one hour later.
\<close>

lemma expiration_date_across_dst:
  "getRefreshTokenExpirationDate new_york_services io_october = 1793797200000 \<and>
   date_expiry io_october + REFRESH_TOKEN_EXPIRATION_MINUTES new_york_services * 60000 =
     1793793600000"
  by (simp add: expiration_date_local LocalTime_def UTC_def new_york_services_def
      sample_services_def io_october_def)

section \<open>Facts about the queries\<close>

text \<open>What the lookup returns: an active row with the given digest, if there is one.\<close>

lemma find_active_props:
  "findRefreshTokenByHash h d = Some t \<Longrightarrow>
     t \<in> set (rows d) \<and> tokenHash t = h \<and> revokedAt t = None"
  unfolding findRefreshTokenByHash_def
  by (auto simp: find_Some_iff)

lemma find_none_iff:
  "(findRefreshTokenByHash h d = None) =
     (\<forall>r \<in> set (rows d). tokenHash r = h \<longrightarrow> revokedAt r \<noteq> None)"
  unfolding findRefreshTokenByHash_def
  by (auto simp: find_None_iff)

lemma find_unique:
  assumes "distinct (map tokenHash (rows d))" "t \<in> set (rows d)" "revokedAt t = None"
  shows "findRefreshTokenByHash (tokenHash t) d = Some t"
proof -
  obtain u where u: "findRefreshTokenByHash (tokenHash t) d = Some u"
    using assms find_none_iff[of "tokenHash t" d] by (cases "findRefreshTokenByHash (tokenHash t) d") auto
  then have "u \<in> set (rows d)" "tokenHash u = tokenHash t" using find_active_props by auto
  with assms have "u = t" by (meson distinct_map inj_onD)
  with u show ?thesis by simp
qed

text \<open>Under the primary key, the revoking update changes exactly one row.\<close>

lemma revoke_rows_update:
  assumes "distinct (map id_token (rows d))" "i < length (rows d)"
  shows "rows (revokeRefreshToken (id_token (rows d ! i)) repl now d) =
     (rows d)[i := (rows d ! i)\<lparr>revokedAt := Some now, replacedByToken := or_null repl\<rparr>]"
proof -
  have "\<forall>j < length (rows d). (id_token (rows d ! j) = id_token (rows d ! i)) = (j = i)"
    using assms by (metis distinct_conv_nth length_map nth_map)
  then show ?thesis using assms(2)
    by (intro nth_equalityI) (simp_all add: revokeRefreshToken_def nth_list_update)
qed

text \<open>What a successful insert returns and stores, and what a digest conflict does.\<close>

lemma create_success:
  assumes "createRefreshToken c token uid ex ua ip io d = (Inr new, d')"
  shows "new = \<lparr>id_token = defaultRandom io, userId = uid, tokenHash = hashToken c token,
                 expiresAt = ex, revokedAt = None, replacedByToken = None,
                 createdAt = defaultNow io, userAgent = ua, ipAddress = ip\<rparr>"
    and "id_token new \<notin> set (map id_token (rows d))"
    and "tokenHash new \<notin> set (map tokenHash (rows d))"
    and "d' = d\<lparr>rows := rows d @ [new], writes := writes d @ [INSERT new]\<rparr>"
  using assms
  by (auto simp: createRefreshToken_def insert_returning_def Let_def split: if_splits)

lemma create_conflict:
  assumes "hashToken c token \<in> set (map tokenHash (rows d))"
  shows "\<exists>k. createRefreshToken c token uid ex ua ip io d = (Inl (DbError k), d)"
  using assms by (simp add: createRefreshToken_def insert_returning_def Let_def)

text \<open>The path a successful refresh has taken, and the rows it leaves.\<close>

lemma refresh_success:
  assumes "refreshTokens c secret ua ip io d = (Inr res, d')"
  obtains t u p new d1 where
    "findRefreshTokenByToken c secret d = Some t"
    "\<not> expiresAt t < date_check io"
    "getUserById c (userId t) = Some u"
    "getProfileById c (id_user u) = Some p"
    "createRefreshToken c (generateRefreshToken io) (id_user u)
       (getRefreshTokenExpirationDate c io) ua ip io d = (Inr new, d1)"
    "d' = revokeRefreshToken (id_token t) (Some (id_token new)) (date_revoke io) d1"
    "res = \<lparr>user = u, profile = p,
            access_token = generateToken c \<lparr>sub = id_user u, role = role_or_user (role_user u)\<rparr>,
            refresh_token = generateRefreshToken io\<rparr>"
  using assms
  by (auto simp: refreshTokens_def Let_def split: option.splits if_splits prod.splits sum.splits)

lemma refresh_rows:
  assumes ok: "refreshTokens c secret ua ip io d = (Inr res, d')"
    and uuid: "defaultRandom io \<noteq> []"
  obtains t new where
    "findRefreshTokenByToken c secret d = Some t"
    "id_token new = defaultRandom io" "revokedAt new = None"
    "id_token new \<notin> set (map id_token (rows d))"
    "rows d' = map (\<lambda>r. if id_token r = id_token t
                          then r\<lparr>revokedAt := Some (date_revoke io),
                                 replacedByToken := Some (id_token new)\<rparr>
                          else r) (rows d) @ [new]"
proof -
  from ok obtain t new d1 and u :: User where
    f: "findRefreshTokenByToken c secret d = Some t"
    and cr: "createRefreshToken c (generateRefreshToken io) (id_user u)
       (getRefreshTokenExpirationDate c io) ua ip io d = (Inr new, d1)"
    and d': "d' = revokeRefreshToken (id_token t) (Some (id_token new)) (date_revoke io) d1"
    by (rule refresh_success) simp
  note cs = create_success[OF cr]
  have tin: "t \<in> set (rows d)"
    using f find_active_props[of "hashToken c secret" d t]
    by (simp add: findRefreshTokenByToken_def)
  have ne: "id_token new \<noteq> id_token t" using cs(2) tin by auto
  have idn: "id_token new = defaultRandom io" using cs(1) by simp
  have act: "revokedAt new = None" using cs(1) by simp
  have "rows d' = map (\<lambda>r. if id_token r = id_token t
                          then r\<lparr>revokedAt := Some (date_revoke io),
                                 replacedByToken := Some (id_token new)\<rparr>
                          else r) (rows d) @ [new]"
    using d' cs(4) uuid idn ne by (simp add: revokeRefreshToken_def or_null_def)
  then show ?thesis using that f idn act cs(2) by blast
qed

text \<open>
  A secret all of whose records are revoked is not found: the lookup keeps only rows
  whose \<open>revoked_at\<close> is null.
\<close>

lemma refresh_revoked_not_found:
  "\<forall>r \<in> set (rows d). tokenHash r = hashToken c secret \<longrightarrow> revokedAt r \<noteq> None \<Longrightarrow>
   refreshTokens c secret ua ip io d =
     (Inl (AppError MSG_AUTH_REFRESH_TOKEN_NOT_FOUND 401 AUTH_REFRESH_TOKEN_NOT_FOUND), d)"
  using find_none_iff[of "hashToken c secret" d]
  by (simp add: refreshTokens_def findRefreshTokenByToken_def)

text \<open>Logout, case by case.\<close>

lemma logout_no_match:
  "\<forall>r \<in> set (rows d). tokenHash r = hashToken c secret \<longrightarrow> revokedAt r \<noteq> None \<Longrightarrow>
   logout c secret io d = (Inr (), d)"
  using find_none_iff[of "hashToken c secret" d]
  by (simp add: logout_def findRefreshTokenByToken_def)

lemma logout_match:
  assumes "table_ok d" "i < length (rows d)" "tokenHash (rows d ! i) = hashToken c secret"
    "revokedAt (rows d ! i) = None"
  shows "logout c secret io d =
    (Inr (), revokeRefreshToken (id_token (rows d ! i)) None (date_revoke io) d)"
proof -
  have "findRefreshTokenByToken c secret d = Some (rows d ! i)"
    using assms find_unique[of d "rows d ! i"]
    by (simp add: findRefreshTokenByToken_def table_ok_def)
  then show ?thesis using assms by (simp add: logout_def)
qed

lemma logout_fst: "fst (logout c secret io d) = Inr ()"
  by (simp add: logout_def split: option.splits)

lemma logout_twice:
  assumes "table_ok d"
  shows "logout c secret io' (snd (logout c secret io d)) = (Inr (), snd (logout c secret io d))"
proof (cases "findRefreshTokenByToken c secret d")
  case None
  then have "logout c secret io d = (Inr (), d)" by (simp add: logout_def)
  then show ?thesis using None by (simp add: logout_def)
next
  case (Some t)
  then have t: "t \<in> set (rows d)" "tokenHash t = hashToken c secret" "revokedAt t = None"
    using find_active_props[of "hashToken c secret" d t] by (simp_all add: findRefreshTokenByToken_def)
  let ?d' = "revokeRefreshToken (id_token t) None (date_revoke io) d"
  have d': "logout c secret io d = (Inr (), ?d')" using Some t by (simp add: logout_def)
  have "\<forall>r \<in> set (rows ?d'). tokenHash r = hashToken c secret \<longrightarrow> revokedAt r \<noteq> None"
  proof (intro ballI impI)
    fix r assume r: "r \<in> set (rows ?d')" "tokenHash r = hashToken c secret"
    then obtain r0 where r0: "r0 \<in> set (rows d)"
      "r = (if id_token r0 = id_token t then r0\<lparr>revokedAt := Some (date_revoke io), replacedByToken := or_null None\<rparr> else r0)"
      by (auto simp: revokeRefreshToken_def)
    then have "tokenHash r0 = tokenHash t" using r t by (simp split: if_splits)
    then have "r0 = t" using assms r0 t by (meson distinct_map inj_onD table_ok_def)
    then show "revokedAt r \<noteq> None" using r0 by simp
  qed
  then show ?thesis using d' logout_no_match by simp
qed

text \<open>Rotation chains: one successful refresh extends a chain by one record.\<close>

lemma chain_active_is_last:
  "chain rs \<Longrightarrow> r \<in> set rs \<Longrightarrow> revokedAt r = None \<Longrightarrow> r = last rs"
  by (induction rs rule: chain.induct) auto

lemma chain_extend:
  assumes "chain rs" "distinct (map id_token rs)" "k = id_token (last rs)"
    "id_token new \<notin> set (map id_token rs)" "revokedAt new = None"
  shows "chain (map (\<lambda>r. if id_token r = k
                           then r\<lparr>revokedAt := Some now, replacedByToken := Some (id_token new)\<rparr>
                           else r) rs @ [new])"
  using assms
proof (induction rs rule: chain.induct)
  case 1
  then show ?case by simp
next
  case (2 r)
  then show ?case by simp
next
  case (3 r r' rs)
  have lk: "k = id_token (last (r' # rs))" using "3.prems"(3) by simp
  have "last (r' # rs) \<in> set (r' # rs)" by (rule last_in_set) simp
  then have "k \<in> set (map id_token (r' # rs))" unfolding lk by (auto simp del: last.simps)
  moreover have "id_token r \<notin> set (map id_token (r' # rs))" using "3.prems"(2) by simp
  ultimately have nk: "id_token r \<noteq> k" by metis
  have "chain (r' # rs)" "distinct (map id_token (r' # rs))"
    "id_token new \<notin> set (map id_token (r' # rs))"
    using "3.prems" by simp_all
  then have ih: "chain (map (\<lambda>r. if id_token r = k
                           then r\<lparr>revokedAt := Some now, replacedByToken := Some (id_token new)\<rparr>
                           else r) (r' # rs) @ [new])"
    using "3.IH" lk "3.prems"(5) by blast
  have "revokedAt r \<noteq> None" "replacedByToken r = Some (id_token r')"
    using "3.prems"(1) by simp_all
  then show ?case using nk ih by simp
qed

lemma chain_nth:
  "chain rs \<Longrightarrow> Suc i < length rs \<Longrightarrow>
     revokedAt (rs ! i) \<noteq> None \<and> replacedByToken (rs ! i) = Some (id_token (rs ! Suc i))"
proof (induction rs arbitrary: i rule: chain.induct)
  case (3 r r' rs)
  then show ?case by (cases i) auto
qed simp_all

lemma chain_last: "chain rs \<Longrightarrow> revokedAt (last rs) = None"
  by (induction rs rule: chain.induct) auto

lemma chain_one_active: "chain rs \<Longrightarrow> filter (\<lambda>r. revokedAt r = None) rs = [last rs]"
  by (induction rs rule: chain.induct) auto

lemma refresh_chain_step:
  assumes "chain (rows d)" "distinct (map id_token (rows d))"
    "refreshTokens c secret ua ip io d = (Inr res, d')" "defaultRandom io \<noteq> []"
  shows "chain (rows d') \<and> distinct (map id_token (rows d')) \<and>
         length (rows d') = Suc (length (rows d)) \<and>
         id_token (last (rows d')) = defaultRandom io"
proof -
  from assms(3,4) obtain t new where
    f: "findRefreshTokenByToken c secret d = Some t"
    and idn: "id_token new = defaultRandom io" and act: "revokedAt new = None"
    and fresh: "id_token new \<notin> set (map id_token (rows d))"
    and r: "rows d' = map (\<lambda>r. if id_token r = id_token t
                          then r\<lparr>revokedAt := Some (date_revoke io),
                                 replacedByToken := Some (id_token new)\<rparr>
                          else r) (rows d) @ [new]"
    by (rule refresh_rows)
  have "t \<in> set (rows d)" "revokedAt t = None"
    using f find_active_props[of "hashToken c secret" d t]
    by (simp_all add: findRefreshTokenByToken_def)
  then have "t = last (rows d)" using assms(1) chain_active_is_last by blast
  then have c: "chain (rows d')"
    using chain_extend[OF assms(1,2) _ fresh act, of "id_token t" "date_revoke io"] r by simp
  have ids: "map id_token (rows d') = map id_token (rows d) @ [id_token new]"
    unfolding r by (induction "rows d") auto
  have "distinct (map id_token (rows d'))" using assms(2) fresh unfolding ids by simp
  then show ?thesis using c r idn by simp
qed

lemma rotations_chain:
  assumes "rotations c ua ip s0 ios d0 = Some (s, d)"
    "chain (rows d0)" "distinct (map id_token (rows d0))"
    "\<forall>io \<in> set ios. defaultRandom io \<noteq> []"
  shows "chain (rows d) \<and> length (rows d) = length (rows d0) + length ios \<and>
         (ios \<noteq> [] \<longrightarrow> id_token (last (rows d)) = defaultRandom (last ios))"
  using assms
proof (induction ios arbitrary: s0 d0)
  case Nil
  then show ?case by simp
next
  case (Cons io ios)
  from Cons.prems(1) obtain res d1 where
    step: "refreshTokens c s0 ua ip io d0 = (Inr res, d1)"
    and rest: "rotations c ua ip (refresh_token res) ios d1 = Some (s, d)"
    by (auto split: prod.splits sum.splits)
  have io: "defaultRandom io \<noteq> []" using Cons.prems(4) by simp
  note st = refresh_chain_step[OF Cons.prems(2,3) step io]
  have ih: "chain (rows d) \<and> length (rows d) = length (rows d1) + length ios \<and>
         (ios \<noteq> [] \<longrightarrow> id_token (last (rows d)) = defaultRandom (last ios))"
    using Cons.IH[OF rest] st Cons.prems(4) by simp
  show ?case
  proof (cases ios)
    case Nil
    then have "d = d1" using rest by simp
    then show ?thesis using ih st Nil by simp
  next
    case (Cons a list)
    then show ?thesis using ih st by simp
  qed
qed

section \<open>The sample run\<close>

lemma sample_login: "login sample_services ''ann@example.com'' ''pw'' None None io1 empty_db =
   (Inr session1, db_login)"
  by (simp add: login_def sample_services_def ann_def ann_profile_def io1_def empty_db_def
      db_login_def rowA_def createRefreshToken_def insert_returning_def hashToken_def
      generateRefreshToken_def expiration_date_local LocalTime_def UTC_def role_or_user_def Let_def
      session1_def)

lemma sample_refresh: "refreshTokens sample_services ''s1'' None None io2 db_login =
   (Inr session2, db_rotated)"
  by (simp add: refreshTokens_def findRefreshTokenByToken_def findRefreshTokenByHash_def
      sample_services_def ann_def ann_profile_def io2_def db_login_def db_rotated_def
      rowA_def rowB_def createRefreshToken_def insert_returning_def hashToken_def
      generateRefreshToken_def expiration_date_local LocalTime_def UTC_def role_or_user_def
      revokeRefreshToken_def or_null_def Let_def session2_def)

lemma sample_find_login:
  "findRefreshTokenByToken sample_services ''s1'' db_login = Some rowA"
  by (simp add: findRefreshTokenByToken_def findRefreshTokenByHash_def hashToken_def
      sample_services_def db_login_def rowA_def)

lemma sample_refresh_again: "refreshTokens sample_services ''s2'' None None io3 db_rotated =
   (Inr session3, db_twice)"
  by (simp add: refreshTokens_def findRefreshTokenByToken_def findRefreshTokenByHash_def
      sample_services_def ann_def ann_profile_def io3_def db_rotated_def db_twice_def
      rowA_def rowB_def rowC_def createRefreshToken_def insert_returning_def hashToken_def
      generateRefreshToken_def expiration_date_local LocalTime_def UTC_def role_or_user_def
      revokeRefreshToken_def or_null_def Let_def session3_def)

lemma sample_rotations:
  "rotations sample_services None None ''s1'' [io2, io3] db_login = Some (''s3'', db_twice)"
proof -
  have "refresh_token session2 = ''s2''" "refresh_token session3 = ''s3''"
    by (simp_all add: session2_def session3_def)
  then show ?thesis by (simp add: sample_refresh sample_refresh_again)
qed

section \<open>Reuse of a rotated secret\<close>

text \<open>
  C1. The run the property is about: a login creates record A, a refresh with A's secret
  rotates it (A revoked and linked to B, B active), and A's secret is presented a second
  time. The lookup of that second call keeps only rows whose \<open>revoked_at\<close> is null, so it
  finds nothing: the call answers \<open>REFRESH_TOKEN_NOT_FOUND\<close>, the branch that revokes all
  the user's tokens is not entered, the table is left as it was, and record B is still
  active.
\<close>

theorem reuse_after_rotation_not_detected:
  "login sample_services ''ann@example.com'' ''pw'' None None io1 empty_db =
     (Inr session1, db_login) \<and>
   refreshTokens sample_services ''s1'' None None io2 db_login =
     (Inr session2, db_rotated) \<and>
   refreshTokens sample_services ''s1'' None None io3 db_rotated =
     (Inl (AppError MSG_AUTH_REFRESH_TOKEN_NOT_FOUND 401 AUTH_REFRESH_TOKEN_NOT_FOUND),
      db_rotated) \<and>
   activeOf ''u1'' db_rotated = [rowB]"
proof -
  have "\<forall>r \<in> set (rows db_rotated).
      tokenHash r = hashToken sample_services ''s1'' \<longrightarrow> revokedAt r \<noteq> None"
    by (simp add: db_rotated_def rowA_def rowB_def hashToken_def sample_services_def)
  then have "refreshTokens sample_services ''s1'' None None io3 db_rotated =
     (Inl (AppError MSG_AUTH_REFRESH_TOKEN_NOT_FOUND 401 AUTH_REFRESH_TOKEN_NOT_FOUND),
      db_rotated)"
    by (rule refresh_revoked_not_found)
  moreover have "activeOf ''u1'' db_rotated = [rowB]"
    by (simp add: activeOf_def db_rotated_def rowA_def rowB_def)
  ultimately show ?thesis using sample_login sample_refresh by simp
qed

text \<open>
  C2. The record of the presented secret is revoked (rotated at 2000) and, at the time of
  the call, past its expiry. The answer is again \<open>REFRESH_TOKEN_NOT_FOUND\<close> with the table
  unchanged: neither the revoked branch nor the expiry check is reached, and record B
  stays active.
\<close>

theorem expired_and_revoked_not_detected:
  "expiresAt (rows db_rotated ! 0) < date_check io_late \<and>
   revokedAt (rows db_rotated ! 0) = Some 2000 \<and>
   tokenHash (rows db_rotated ! 0) = hashToken sample_services ''s1'' \<and>
   refreshTokens sample_services ''s1'' None None io_late db_rotated =
     (Inl (AppError MSG_AUTH_REFRESH_TOKEN_NOT_FOUND 401 AUTH_REFRESH_TOKEN_NOT_FOUND),
      db_rotated) \<and>
   activeOf ''u1'' db_rotated = [rowB]"
proof -
  have "\<forall>r \<in> set (rows db_rotated).
      tokenHash r = hashToken sample_services ''s1'' \<longrightarrow> revokedAt r \<noteq> None"
    by (simp add: db_rotated_def rowA_def rowB_def hashToken_def sample_services_def)
  then have "refreshTokens sample_services ''s1'' None None io_late db_rotated =
     (Inl (AppError MSG_AUTH_REFRESH_TOKEN_NOT_FOUND 401 AUTH_REFRESH_TOKEN_NOT_FOUND),
      db_rotated)"
    by (rule refresh_revoked_not_found)
  moreover have "activeOf ''u1'' db_rotated = [rowB]"
    by (simp add: activeOf_def db_rotated_def rowA_def rowB_def)
  ultimately show ?thesis
    by (simp add: db_rotated_def rowA_def io_late_def hashToken_def sample_services_def)
qed

section \<open>Failures of a refresh\<close>

text \<open>
  C3, as stated, fails: with an active, unexpired record whose user exists and whose
  profile does not, the refresh fails with status 404 (profile not found, code
  \<open>AUTH_INVALID_CREDENTIALS\<close>), which is none of the three 401 failures.
\<close>

theorem refresh_profile_missing_counterexample:
  "fst (refreshTokens no_profile_services ''s1'' None None io2 db_login) =
     Inl (AppError MSG_AUTH_PROFILE_NOT_FOUND 404 AUTH_INVALID_CREDENTIALS) \<and>
   fst (refreshTokens no_profile_services ''s1'' None None io2 db_login) \<notin>
     {Inl (AppError MSG_AUTH_REFRESH_TOKEN_NOT_FOUND 401 AUTH_REFRESH_TOKEN_NOT_FOUND),
      Inl (AppError MSG_AUTH_REFRESH_TOKEN_REVOKED 401 AUTH_REFRESH_TOKEN_REVOKED),
      Inl (AppError MSG_AUTH_REFRESH_TOKEN_EXPIRED 401 AUTH_REFRESH_TOKEN_EXPIRED)}"
  by (simp add: refreshTokens_def findRefreshTokenByToken_def findRefreshTokenByHash_def
      hashToken_def no_profile_services_def sample_services_def ann_def io2_def
      db_login_def rowA_def)

text \<open>
  C3, amended. Every \<open>AppError\<close> a refresh fails with is one of five: refresh token not
  found, revoked or expired (status 401), user not found (status 404), or profile not
  found (status 404 with the code \<open>AUTH_INVALID_CREDENTIALS\<close>).
\<close>

theorem refresh_typed_failures:
  "fst (refreshTokens c secret ua ip io d) = Inl (AppError m status code) \<Longrightarrow>
     (m, status, code) \<in>
       {(MSG_AUTH_REFRESH_TOKEN_NOT_FOUND, 401, AUTH_REFRESH_TOKEN_NOT_FOUND),
        (MSG_AUTH_REFRESH_TOKEN_REVOKED, 401, AUTH_REFRESH_TOKEN_REVOKED),
        (MSG_AUTH_REFRESH_TOKEN_EXPIRED, 401, AUTH_REFRESH_TOKEN_EXPIRED),
        (MSG_USER_NOT_FOUND, 404, USER_NOT_FOUND),
        (MSG_AUTH_PROFILE_NOT_FOUND, 404, AUTH_INVALID_CREDENTIALS)}"
  by (auto simp: refreshTokens_def createRefreshToken_def insert_returning_def Let_def
      split: option.splits if_splits prod.splits sum.splits list.splits)

theorem refresh_typed_failures_witness:
  "fst (refreshTokens no_profile_services ''s1'' None None io2 db_login) =
     Inl (AppError MSG_AUTH_PROFILE_NOT_FOUND 404 AUTH_INVALID_CREDENTIALS) \<and>
   (MSG_AUTH_PROFILE_NOT_FOUND, 404, AUTH_INVALID_CREDENTIALS) \<in>
       {(MSG_AUTH_REFRESH_TOKEN_NOT_FOUND, 401, AUTH_REFRESH_TOKEN_NOT_FOUND),
        (MSG_AUTH_REFRESH_TOKEN_REVOKED, 401, AUTH_REFRESH_TOKEN_REVOKED),
        (MSG_AUTH_REFRESH_TOKEN_EXPIRED, 401, AUTH_REFRESH_TOKEN_EXPIRED),
        (MSG_USER_NOT_FOUND, 404, USER_NOT_FOUND),
        (MSG_AUTH_PROFILE_NOT_FOUND, 404, AUTH_INVALID_CREDENTIALS)}"
proof -
  have h: "fst (refreshTokens no_profile_services ''s1'' None None io2 db_login) =
     Inl (AppError MSG_AUTH_PROFILE_NOT_FOUND 404 AUTH_INVALID_CREDENTIALS)"
    by (simp add: refreshTokens_def findRefreshTokenByToken_def findRefreshTokenByHash_def
      hashToken_def no_profile_services_def sample_services_def ann_def io2_def
      db_login_def rowA_def)
  show ?thesis using h refresh_typed_failures[OF h] by blast
qed

section \<open>Rotation\<close>

text \<open>
  C4. When a refresh succeeds on the presented record \<open>t\<close>, it has executed exactly two
  write statements, in this order: the insert of a new record, then the revoking update of
  \<open>t\<close> that sets \<open>replacedByToken\<close> to the new record's id. The new record did not exist
  before, belongs to the owner of \<open>t\<close>, carries the digest of the returned secret, is
  active, and holds the user agent and address of the current request. Its expiry is
  computed afresh from the clock of this request: the current local time plus the
  configured number of minutes, read back as UTC (which is the current time plus those
  minutes unless the offset of the time zone changes in between). The table afterwards
  is the old one with \<open>t\<close> revoked and linked, followed by the new record. Assumed of the
  environment: the user lookup returns the user it was asked for, and the generated uuid
  is not the empty string.
\<close>

theorem rotation_inserts_then_revokes:
  assumes ok: "refreshTokens c secret ua ip io d = (Inr res, d')"
    and found: "findRefreshTokenByToken c secret d = Some t"
    and lookup: "\<forall>u. getUserById c (userId t) = Some u \<longrightarrow> id_user u = userId t"
    and uuid: "defaultRandom io \<noteq> []"
  shows "\<exists>new.
     writes d' = writes d @
        [INSERT new, UPDATE_revoke (id_token t) (Some (id_token new)) (date_revoke io)] \<and>
     rows d' = map (\<lambda>r. if id_token r = id_token t
                          then r\<lparr>revokedAt := Some (date_revoke io),
                                 replacedByToken := Some (id_token new)\<rparr>
                          else r) (rows d) @ [new] \<and>
     new = \<lparr>id_token = defaultRandom io, userId = userId t,
            tokenHash = hashToken c (refresh_token res),
            expiresAt = UTC c (LocalTime c (date_expiry io) +
                                 REFRESH_TOKEN_EXPIRATION_MINUTES c * 60000),
            revokedAt = None, replacedByToken = None, createdAt = defaultNow io,
            userAgent = ua, ipAddress = ip\<rparr> \<and>
     id_token new \<notin> set (map id_token (rows d))"
proof -
  from ok obtain t' u p new d1 where
    f: "findRefreshTokenByToken c secret d = Some t'"
    and u: "getUserById c (userId t') = Some u"
    and cr: "createRefreshToken c (generateRefreshToken io) (id_user u)
       (getRefreshTokenExpirationDate c io) ua ip io d = (Inr new, d1)"
    and d': "d' = revokeRefreshToken (id_token t') (Some (id_token new)) (date_revoke io) d1"
    and res: "refresh_token res = generateRefreshToken io"
    by (rule refresh_success) simp
  have tt: "t' = t" using f found by simp
  have uid: "id_user u = userId t" using lookup u tt by simp
  note cs = create_success[OF cr]
  have tin: "t \<in> set (rows d)"
    using found find_active_props[of "hashToken c secret" d t]
    by (simp add: findRefreshTokenByToken_def)
  have ne: "id_token new \<noteq> id_token t" using cs(2) tin by auto
  have idn: "id_token new = defaultRandom io" using cs(1) by simp
  have "writes d' = writes d @
        [INSERT new, UPDATE_revoke (id_token t) (Some (id_token new)) (date_revoke io)]"
    using d' cs(4) tt uuid idn by (simp add: revokeRefreshToken_def or_null_def)
  moreover have "rows d' = map (\<lambda>r. if id_token r = id_token t
                          then r\<lparr>revokedAt := Some (date_revoke io),
                                 replacedByToken := Some (id_token new)\<rparr>
                          else r) (rows d) @ [new]"
    using d' cs(4) tt uuid idn ne by (simp add: revokeRefreshToken_def or_null_def)
  moreover have "new = \<lparr>id_token = defaultRandom io, userId = userId t,
            tokenHash = hashToken c (refresh_token res),
            expiresAt = UTC c (LocalTime c (date_expiry io) +
                                 REFRESH_TOKEN_EXPIRATION_MINUTES c * 60000),
            revokedAt = None, replacedByToken = None, createdAt = defaultNow io,
            userAgent = ua, ipAddress = ip\<rparr>"
    using cs(1) uid res by (simp add: expiration_date_local)
  ultimately show ?thesis using cs(2) by blast
qed

text \<open>
  The sample rotation: record B is inserted, then record A is revoked and linked to B.
\<close>

theorem rotation_inserts_then_revokes_witness:
  "refreshTokens sample_services ''s1'' None None io2 db_login = (Inr session2, db_rotated) \<and>
   writes db_rotated = writes db_login @ [INSERT rowB, UPDATE_revoke ''A'' (Some ''B'') 2000] \<and>
   rows db_rotated = [rowA\<lparr>revokedAt := Some 2000, replacedByToken := Some ''B''\<rparr>, rowB] \<and>
   userId rowB = userId rowA \<and> expiresAt rowB = 2000 + 10080 * 60000"
proof -
  have lookup: "\<forall>u. getUserById sample_services (userId rowA) = Some u \<longrightarrow>
      id_user u = userId rowA"
    by (simp add: sample_services_def rowA_def ann_def)
  have uuid: "defaultRandom io2 \<noteq> []" by (simp add: io2_def)
  from rotation_inserts_then_revokes[OF sample_refresh sample_find_login lookup uuid]
  obtain new where
    w: "writes db_rotated = writes db_login @
        [INSERT new, UPDATE_revoke (id_token rowA) (Some (id_token new)) (date_revoke io2)]"
    and r: "rows db_rotated = map (\<lambda>r. if id_token r = id_token rowA
                          then r\<lparr>revokedAt := Some (date_revoke io2),
                                 replacedByToken := Some (id_token new)\<rparr>
                          else r) (rows db_login) @ [new]"
    and n: "new = \<lparr>id_token = defaultRandom io2, userId = userId rowA,
            tokenHash = hashToken sample_services (refresh_token session2),
            expiresAt = UTC sample_services (LocalTime sample_services (date_expiry io2) +
                          REFRESH_TOKEN_EXPIRATION_MINUTES sample_services * 60000),
            revokedAt = None, replacedByToken = None, createdAt = defaultNow io2,
            userAgent = None, ipAddress = None\<rparr>"
    by auto
  have nb: "new = rowB"
    unfolding n
    by (simp add: rowB_def rowA_def io2_def hashToken_def LocalTime_def UTC_def
        sample_services_def session2_def)
  have "writes db_rotated =
          writes db_login @ [INSERT rowB, UPDATE_revoke ''A'' (Some ''B'') 2000] \<and>
        rows db_rotated = [rowA\<lparr>revokedAt := Some 2000, replacedByToken := Some ''B''\<rparr>, rowB] \<and>
        userId rowB = userId rowA \<and> expiresAt rowB = 2000 + 10080 * 60000"
    using w r unfolding nb by (simp add: db_login_def rowA_def rowB_def io2_def)
  then show ?thesis using sample_refresh by simp
qed

text \<open>
  C5. Starting from a table that holds one active record, \<open>N\<close> successful rotations in
  sequence leave \<open>N + 1\<close> records; each of the first \<open>N\<close> is revoked and names the next
  record in \<open>replacedByToken\<close>; the last record, the one the last rotation inserted, is
  active, and so it is the only active one. Assumed of the environment: no generated uuid
  is the empty string.
\<close>

theorem rotations_form_chain:
  assumes "rows d0 = [r0]" "revokedAt r0 = None"
    and "\<forall>io \<in> set ios. defaultRandom io \<noteq> []"
    and "rotations c ua ip s0 ios d0 = Some (s, d)"
  shows "length (rows d) = length ios + 1 \<and>
    (\<forall>i < length ios. revokedAt (rows d ! i) \<noteq> None \<and>
         replacedByToken (rows d ! i) = Some (id_token (rows d ! Suc i))) \<and>
    revokedAt (rows d ! length ios) = None \<and>
    filter (\<lambda>r. revokedAt r = None) (rows d) = [rows d ! length ios] \<and>
    (ios \<noteq> [] \<longrightarrow> id_token (rows d ! length ios) = defaultRandom (last ios))"
proof -
  have c0: "chain (rows d0)" "distinct (map id_token (rows d0))" using assms(1,2) by simp_all
  note rc = rotations_chain[OF assms(4) c0 assms(3)]
  then have len: "length (rows d) = length ios + 1" using assms(1) by simp
  then have lst: "last (rows d) = rows d ! length ios"
    by (metis add_diff_cancel_right' last_conv_nth length_0_conv Suc_eq_plus1 nat.distinct(1))
  have "\<forall>i < length ios. revokedAt (rows d ! i) \<noteq> None \<and>
         replacedByToken (rows d ! i) = Some (id_token (rows d ! Suc i))"
    using rc len chain_nth[of "rows d"] by simp
  moreover have "revokedAt (rows d ! length ios) = None"
    using rc chain_last[of "rows d"] lst by simp
  moreover have "filter (\<lambda>r. revokedAt r = None) (rows d) = [rows d ! length ios]"
    using rc chain_one_active[of "rows d"] lst by simp
  ultimately show ?thesis using len rc lst by simp
qed

theorem rotations_form_chain_witness:
  "rotations sample_services None None ''s1'' [io2, io3] db_login = Some (''s3'', db_twice) \<and>
   length (rows db_twice) = 3 \<and>
   revokedAt (rows db_twice ! 0) \<noteq> None \<and>
   replacedByToken (rows db_twice ! 0) = Some (id_token (rows db_twice ! 1)) \<and>
   revokedAt (rows db_twice ! 1) \<noteq> None \<and>
   replacedByToken (rows db_twice ! 1) = Some (id_token (rows db_twice ! 2)) \<and>
   revokedAt (rows db_twice ! 2) = None \<and>
   filter (\<lambda>r. revokedAt r = None) (rows db_twice) = [rows db_twice ! 2] \<and>
   id_token (rows db_twice ! 2) = ''C''"
proof -
  have h: "rows db_login = [rowA]" "revokedAt rowA = None"
    "\<forall>io \<in> set [io2, io3]. defaultRandom io \<noteq> []"
    by (simp_all add: db_login_def rowA_def io2_def io3_def)
  note t = rotations_form_chain[OF h sample_rotations]
  note link = t[THEN conjunct2, THEN conjunct1, rule_format]
  show ?thesis using t sample_rotations link[of 0] link[of 1]
    by (simp add: eval_nat_numeral io3_def)
qed

section \<open>Expiry\<close>

text \<open>
  C6. In a table that satisfies the database constraints, a refresh presenting the secret
  of a record that is active and past its expiry fails with \<open>REFRESH_TOKEN_EXPIRED\<close> and
  leaves the state as it was: no row is changed and no write statement is executed.
\<close>

theorem refresh_expired_no_cascade:
  assumes "table_ok d" "t \<in> set (rows d)" "tokenHash t = hashToken c secret"
    "revokedAt t = None" "expiresAt t < date_check io"
  shows "refreshTokens c secret ua ip io d =
    (Inl (AppError MSG_AUTH_REFRESH_TOKEN_EXPIRED 401 AUTH_REFRESH_TOKEN_EXPIRED), d)"
proof -
  have "findRefreshTokenByToken c secret d = Some t"
    using assms find_unique[of d t] by (simp add: findRefreshTokenByToken_def table_ok_def)
  then show ?thesis using assms by (simp add: refreshTokens_def)
qed

text \<open>
  With two active sessions of one user, both past their expiry, presenting the first
  secret fails as expired and both stay active.
\<close>

theorem refresh_expired_no_cascade_witness:
  "refreshTokens sample_services ''s1'' None None io_late db_two =
     (Inl (AppError MSG_AUTH_REFRESH_TOKEN_EXPIRED 401 AUTH_REFRESH_TOKEN_EXPIRED), db_two) \<and>
   activeOf ''u1'' db_two = [rowA, rowB]"
proof -
  have h: "table_ok db_two" "rowA \<in> set (rows db_two)"
    "tokenHash rowA = hashToken sample_services ''s1''" "revokedAt rowA = None"
    "expiresAt rowA < date_check io_late"
    by (simp_all add: table_ok_def db_two_def rowA_def rowB_def hashToken_def sample_services_def io_late_def)
  have "activeOf ''u1'' db_two = [rowA, rowB]"
    by (simp add: activeOf_def db_two_def rowA_def rowB_def)
  then show ?thesis using refresh_expired_no_cascade[OF h] by simp
qed

section \<open>Logout\<close>

text \<open>
  C7, as stated, fails for an expired secret: logout does not look at the expiry, so a
  record that is past its expiry and not yet revoked is found and revoked, which changes
  the table.
\<close>

theorem logout_expired_counterexample:
  "expiresAt rowA < date_revoke io_late \<and>
   findRefreshTokenByToken sample_services ''s1'' db_login = Some rowA \<and>
   snd (logout sample_services ''s1'' io_late db_login) =
     \<lparr>rows = [rowA\<lparr>revokedAt := Some 700000000\<rparr>],
      writes = [INSERT rowA, UPDATE_revoke ''A'' None 700000000]\<rparr> \<and>
   snd (logout sample_services ''s1'' io_late db_login) \<noteq> db_login"
  by (simp add: logout_def findRefreshTokenByToken_def findRefreshTokenByHash_def
      hashToken_def sample_services_def revokeRefreshToken_def or_null_def
      db_login_def rowA_def io_late_def)

text \<open>
  C7, amended. Logout never fails, and with a missing cookie it does nothing. In a table
  that satisfies the database constraints, when the secret matches an active record
  (expired or not), exactly that record is revoked, with \<open>replacedByToken\<close> null. When no
  active record matches the secret (unknown or already revoked), the state is unchanged.
  A second logout with the same secret changes nothing.
\<close>

theorem logout_revokes_or_skips:
  "fst (logout_controller c cookie io d) = Inr () \<and>
   logout_controller c None io d = (Inr (), d) \<and>
   (table_ok d \<and> i < length (rows d) \<and> tokenHash (rows d ! i) = hashToken c secret \<and>
      revokedAt (rows d ! i) = None \<longrightarrow>
        rows (snd (logout c secret io d)) =
          (rows d)[i := (rows d ! i)\<lparr>revokedAt := Some (date_revoke io),
                                      replacedByToken := None\<rparr>]) \<and>
   ((\<forall>r \<in> set (rows d). tokenHash r = hashToken c secret \<longrightarrow> revokedAt r \<noteq> None) \<longrightarrow>
        logout c secret io d = (Inr (), d)) \<and>
   (table_ok d \<longrightarrow>
        logout c secret io' (snd (logout c secret io d)) = (Inr (), snd (logout c secret io d)))"
proof (intro conjI impI)
  show "fst (logout_controller c cookie io d) = Inr ()"
    by (simp add: logout_controller_def logout_fst split: option.splits)
  show "logout_controller c None io d = (Inr (), d)"
    by (simp add: logout_controller_def)
next
  assume a: "table_ok d \<and> i < length (rows d) \<and> tokenHash (rows d ! i) = hashToken c secret \<and>
      revokedAt (rows d ! i) = None"
  then have "logout c secret io d =
    (Inr (), revokeRefreshToken (id_token (rows d ! i)) None (date_revoke io) d)"
    using logout_match by blast
  moreover have "rows (revokeRefreshToken (id_token (rows d ! i)) None (date_revoke io) d) =
     (rows d)[i := (rows d ! i)\<lparr>revokedAt := Some (date_revoke io), replacedByToken := or_null None\<rparr>]"
    using a revoke_rows_update[of d i] by (simp add: table_ok_def)
  ultimately show "rows (snd (logout c secret io d)) =
          (rows d)[i := (rows d ! i)\<lparr>revokedAt := Some (date_revoke io),
                                      replacedByToken := None\<rparr>]"
    by (simp add: or_null_def)
next
  assume "\<forall>r \<in> set (rows d). tokenHash r = hashToken c secret \<longrightarrow> revokedAt r \<noteq> None"
  then show "logout c secret io d = (Inr (), d)" by (rule logout_no_match)
next
  assume "table_ok d"
  then show "logout c secret io' (snd (logout c secret io d)) = (Inr (), snd (logout c secret io d))"
    by (rule logout_twice)
qed

theorem logout_revokes_or_skips_witness:
  "fst (logout_controller sample_services (Some ''s1'') io3 db_login) = Inr () \<and>
   logout_controller sample_services None io3 db_login = (Inr (), db_login) \<and>
   rows (snd (logout sample_services ''s1'' io3 db_login)) =
     [rowA\<lparr>revokedAt := Some 3000, replacedByToken := None\<rparr>] \<and>
   logout sample_services ''s1'' io_late (snd (logout sample_services ''s1'' io3 db_login)) =
     (Inr (), snd (logout sample_services ''s1'' io3 db_login)) \<and>
   logout sample_services ''s1'' io3 db_rotated = (Inr (), db_rotated)"
proof -
  have h1: "table_ok db_login \<and> 0 < length (rows db_login) \<and>
      tokenHash (rows db_login ! 0) = hashToken sample_services ''s1'' \<and>
      revokedAt (rows db_login ! 0) = None"
    by (simp add: table_ok_def db_login_def rowA_def hashToken_def sample_services_def)
  have h2: "\<forall>r \<in> set (rows db_rotated).
      tokenHash r = hashToken sample_services ''s1'' \<longrightarrow> revokedAt r \<noteq> None"
    by (simp add: db_rotated_def rowA_def rowB_def hashToken_def sample_services_def)
  note a = logout_revokes_or_skips[of sample_services "Some ''s1''" io3 db_login 0 "''s1''" io_late]
  note b = logout_revokes_or_skips[of sample_services None io3 db_rotated 0 "''s1''" io_late]
  have "rows (snd (logout sample_services ''s1'' io3 db_login)) =
     [rowA\<lparr>revokedAt := Some 3000, replacedByToken := None\<rparr>]"
    using a h1 by (simp add: db_login_def io3_def)
  moreover have "logout sample_services ''s1'' io3 db_rotated = (Inr (), db_rotated)"
    using b h2 by blast
  ultimately show ?thesis using a h1 by simp
qed

section \<open>Digest conflicts\<close>

text \<open>
  C8, as stated, fails: when the generator returns a secret whose digest is already
  stored, login fails at once with the error of the unique index, which is not an
  \<open>AppError\<close>; no second secret is generated and no second insert is attempted.
\<close>

theorem digest_conflict_counterexample:
  "hashToken sample_services (generateRefreshToken io_clash) \<in> set (map tokenHash (rows db_login)) \<and>
   login sample_services ''ann@example.com'' ''pw'' None None io_clash db_login =
     (Inl (DbError idx_refresh_tokens_token_hash), db_login)"
  by (simp add: login_def sample_services_def ann_def ann_profile_def io_clash_def
      db_login_def rowA_def createRefreshToken_def insert_returning_def hashToken_def
      generateRefreshToken_def expiration_date_local LocalTime_def UTC_def role_or_user_def Let_def)

text \<open>
  C8, amended. An insert whose digest is already stored fails with a database error and
  leaves the table unchanged (nothing is overwritten). Login and refresh generate one
  secret and insert once: when that digest is already stored they fail with the same
  database error, the state unchanged.
\<close>

theorem digest_conflict_fails_unretried:
  "(hashToken c token \<in> set (map tokenHash (rows d)) \<longrightarrow>
      (\<exists>k. createRefreshToken c token uid ex ua ip io d = (Inl (DbError k), d))) \<and>
   (loginQuery c mail password = Inr (u, p) \<and>
    hashToken c (generateRefreshToken io) \<in> set (map tokenHash (rows d)) \<longrightarrow>
      (\<exists>k. login c mail password ua ip io d = (Inl (DbError k), d))) \<and>
   (findRefreshTokenByToken c secret d = Some t \<and> \<not> expiresAt t < date_check io \<and>
    getUserById c (userId t) = Some u \<and> getProfileById c (id_user u) = Some p \<and>
    hashToken c (generateRefreshToken io) \<in> set (map tokenHash (rows d)) \<longrightarrow>
      (\<exists>k. refreshTokens c secret ua ip io d = (Inl (DbError k), d)))"
proof (intro conjI impI)
  assume "hashToken c token \<in> set (map tokenHash (rows d))"
  then show "\<exists>k. createRefreshToken c token uid ex ua ip io d = (Inl (DbError k), d)"
    by (rule create_conflict)
next
  assume a: "loginQuery c mail password = Inr (u, p) \<and>
    hashToken c (generateRefreshToken io) \<in> set (map tokenHash (rows d))"
  then obtain k where "createRefreshToken c (generateRefreshToken io) (id_user u)
       (getRefreshTokenExpirationDate c io) ua ip io d = (Inl (DbError k), d)"
    using create_conflict by blast
  then show "\<exists>k. login c mail password ua ip io d = (Inl (DbError k), d)"
    using a by (simp add: login_def Let_def)
next
  assume a: "findRefreshTokenByToken c secret d = Some t \<and> \<not> expiresAt t < date_check io \<and>
    getUserById c (userId t) = Some u \<and> getProfileById c (id_user u) = Some p \<and>
    hashToken c (generateRefreshToken io) \<in> set (map tokenHash (rows d))"
  then obtain k where "createRefreshToken c (generateRefreshToken io) (id_user u)
       (getRefreshTokenExpirationDate c io) ua ip io d = (Inl (DbError k), d)"
    using create_conflict by blast
  moreover have "revokedAt t = None"
    using a find_active_props[of "hashToken c secret" d t]
    by (simp add: findRefreshTokenByToken_def)
  ultimately show "\<exists>k. refreshTokens c secret ua ip io d = (Inl (DbError k), d)"
    using a by (simp add: refreshTokens_def Let_def)
qed

theorem digest_conflict_fails_unretried_witness:
  "(\<exists>k. createRefreshToken sample_services ''s1'' ''u1'' 0 None None io_clash db_login =
          (Inl (DbError k), db_login)) \<and>
   (\<exists>k. login sample_services ''ann@example.com'' ''pw'' None None io_clash db_login =
          (Inl (DbError k), db_login)) \<and>
   (\<exists>k. refreshTokens sample_services ''s1'' None None io_clash db_login =
          (Inl (DbError k), db_login))"
proof -
  have h1: "hashToken sample_services ''s1'' \<in> set (map tokenHash (rows db_login))"
    by (simp add: hashToken_def sample_services_def db_login_def rowA_def)
  have h2: "loginQuery sample_services ''ann@example.com'' ''pw'' = Inr (ann, ann_profile) \<and>
    hashToken sample_services (generateRefreshToken io_clash) \<in> set (map tokenHash (rows db_login))"
    by (simp add: hashToken_def sample_services_def db_login_def rowA_def generateRefreshToken_def io_clash_def
        sample_services_def)
  have h3: "findRefreshTokenByToken sample_services ''s1'' db_login = Some rowA \<and>
    \<not> expiresAt rowA < date_check io_clash \<and>
    getUserById sample_services (userId rowA) = Some ann \<and>
    getProfileById sample_services (id_user ann) = Some ann_profile \<and>
    hashToken sample_services (generateRefreshToken io_clash) \<in> set (map tokenHash (rows db_login))"
    using h2 by (simp add: sample_find_login) (simp add: rowA_def io_clash_def sample_services_def ann_def)
  note t = digest_conflict_fails_unretried[of sample_services "''s1''" db_login "''u1''" 0 None None
      io_clash "''ann@example.com''" "''pw''" ann ann_profile "''s1''" rowA]
  show ?thesis using t h1 h2 h3 by blast
qed

section \<open>The default role\<close>

text \<open>
  C9. When the user's role is null, the access token of a successful login, and of a
  successful refresh, is signed over the claims with role \<open>'user'\<close>.
\<close>

theorem default_role_is_user:
  "(loginQuery c mail password = Inr (u, p) \<and> role_user u = None \<and>
      login c mail password ua ip io d = (Inr res, d') \<longrightarrow>
        access_token res = generateToken c \<lparr>sub = id_user u, role = ''user''\<rparr>) \<and>
   (findRefreshTokenByToken c secret d = Some t \<and> getUserById c (userId t) = Some u \<and>
      role_user u = None \<and> refreshTokens c secret ua ip io d = (Inr res, d') \<longrightarrow>
        access_token res = generateToken c \<lparr>sub = id_user u, role = ''user''\<rparr>)"
proof (intro conjI impI)
  assume "loginQuery c mail password = Inr (u, p) \<and> role_user u = None \<and>
      login c mail password ua ip io d = (Inr res, d')"
  then show "access_token res = generateToken c \<lparr>sub = id_user u, role = ''user''\<rparr>"
    by (auto simp: login_def Let_def role_or_user_def split: prod.splits sum.splits)
next
  assume a: "findRefreshTokenByToken c secret d = Some t \<and> getUserById c (userId t) = Some u \<and>
      role_user u = None \<and> refreshTokens c secret ua ip io d = (Inr res, d')"
  then have "refreshTokens c secret ua ip io d = (Inr res, d')" by simp
  then show "access_token res = generateToken c \<lparr>sub = id_user u, role = ''user''\<rparr>"
    using a by (elim refresh_success) (simp add: role_or_user_def)
qed

text \<open>
  The sample user has no role; the tokens of the sample login and of the sample rotation
  are both signed over \<open>sub = u1, role = user\<close>.
\<close>

theorem default_role_is_user_witness:
  "role_user ann = None \<and>
   login sample_services ''ann@example.com'' ''pw'' None None io1 empty_db =
     (Inr session1, db_login) \<and>
   access_token session1 = generateToken sample_services \<lparr>sub = ''u1'', role = ''user''\<rparr> \<and>
   refreshTokens sample_services ''s1'' None None io2 db_login = (Inr session2, db_rotated) \<and>
   access_token session2 = generateToken sample_services \<lparr>sub = ''u1'', role = ''user''\<rparr>"
proof -
  have h1: "loginQuery sample_services ''ann@example.com'' ''pw'' = Inr (ann, ann_profile) \<and>
      role_user ann = None \<and>
      login sample_services ''ann@example.com'' ''pw'' None None io1 empty_db =
        (Inr session1, db_login)"
    using sample_login by (simp add: sample_services_def ann_def)
  have h2: "findRefreshTokenByToken sample_services ''s1'' db_login = Some rowA \<and>
      getUserById sample_services (userId rowA) = Some ann \<and> role_user ann = None \<and>
      refreshTokens sample_services ''s1'' None None io2 db_login =
        (Inr session2, db_rotated)"
    using sample_refresh sample_find_login by (simp add: sample_services_def ann_def rowA_def)
  have u: "id_user ann = ''u1''" by (simp add: ann_def)
  from default_role_is_user[THEN conjunct1, rule_format, OF h1]
    default_role_is_user[THEN conjunct2, rule_format, OF h2]
  show ?thesis using h1 h2 unfolding u by simp
qed

section \<open>Store-level revoke\<close>

text \<open>
  C10. The revoking update keeps the number and order of the rows. A row whose id is not
  the given one is unchanged. A row with the given id keeps every field except
  \<open>revokedAt\<close> and \<open>replacedByToken\<close>: its \<open>revokedAt\<close> becomes the current time
  whatever it was before (also when the row was already revoked), and its
  \<open>replacedByToken\<close> becomes the replacement id when one is supplied and null when none
  is (also when it held an id before).
\<close>

theorem revokeRefreshToken_frame:
  "length (rows (revokeRefreshToken tokenId repl now d)) = length (rows d) \<and>
   (\<forall>i < length (rows d).
      let r = rows d ! i; r' = rows (revokeRefreshToken tokenId repl now d) ! i in
        (id_token r \<noteq> tokenId \<longrightarrow> r' = r) \<and>
        (id_token r = tokenId \<longrightarrow>
           id_token r' = id_token r \<and> userId r' = userId r \<and> tokenHash r' = tokenHash r \<and>
           expiresAt r' = expiresAt r \<and> createdAt r' = createdAt r \<and>
           userAgent r' = userAgent r \<and> ipAddress r' = ipAddress r \<and>
           revokedAt r' = Some now \<and>
           (repl = None \<longrightarrow> replacedByToken r' = None) \<and>
           (\<forall>n. repl = Some n \<and> n \<noteq> [] \<longrightarrow> replacedByToken r' = Some n)))"
  by (simp add: revokeRefreshToken_def or_null_def Let_def)

text \<open>
  On the table left by one rotation, revoking record A again with no replacement
  overwrites its revocation time and clears its link, and leaves record B as it is.
\<close>

theorem revokeRefreshToken_frame_witness:
  "length (rows db_rotated) = 2 \<and> id_token (rows db_rotated ! 0) = ''A'' \<and>
   id_token (rows db_rotated ! 1) \<noteq> ''A'' \<and>
   revokedAt (rows db_rotated ! 0) = Some 2000 \<and>
   replacedByToken (rows db_rotated ! 0) = Some ''B'' \<and>
   rows (revokeRefreshToken ''A'' None 3000 db_rotated) ! 0 =
     rowA\<lparr>revokedAt := Some 3000, replacedByToken := None\<rparr> \<and>
   rows (revokeRefreshToken ''A'' None 3000 db_rotated) ! 1 = rowB"
proof -
  have pre: "length (rows db_rotated) = 2" "id_token (rows db_rotated ! 0) = ''A''"
    "id_token (rows db_rotated ! 1) \<noteq> ''A''"
    "rows db_rotated ! 0 = rowA\<lparr>revokedAt := Some 2000, replacedByToken := Some ''B''\<rparr>"
    "rows db_rotated ! 1 = rowB"
    by (simp_all add: db_rotated_def rowA_def rowB_def)
  note f = revokeRefreshToken_frame[where tokenId = "''A''" and repl = None and now = 3000
      and d = db_rotated, THEN conjunct2]
  from f[rule_format, of 0] pre
  have a: "rows (revokeRefreshToken ''A'' None 3000 db_rotated) ! 0 =
     rowA\<lparr>revokedAt := Some 3000, replacedByToken := None\<rparr>"
    by (simp add: Let_def rowA_def RefreshToken.equality)
  from f[rule_format, of 1] pre
  have b: "rows (revokeRefreshToken ''A'' None 3000 db_rotated) ! 1 = rowB"
    by (simp add: Let_def)
  show ?thesis using pre a b by simp
qed

end
